theory Spec2Isabelle
  imports Main
begin

section \<open>JavaScript values, errors and conversions\<close>

text \<open>
  An exception of the program is an error object; the program only ever reads its
  \<open>message\<close>. \<open>Error\<close> is raised by the program itself (\<open>throw new Error(...)\<close>),
  \<open>TypeError\<close> and \<open>SyntaxError\<close> by the language (destructuring \<open>null\<close>, a failed
  conversion to text, \<open>JSON.parse\<close>); the texts of the latter two are the engine's.
\<close>

datatype js_error = Error string | TypeError string | SyntaxError string

fun message :: "js_error \<Rightarrow> string" where
  "message (Error m) = m"
| "message (TypeError m) = m"
| "message (SyntaxError m) = m"

text \<open>
  The values \<open>JSON.parse\<close> can return, and \<open>undefined\<close> (what reading a missing
  property gives). A number is carried as the text \<open>String(n)\<close> gives for it. An
  object is the list of its own properties, keys distinct, as \<open>JSON.parse\<close> builds it.
\<close>

datatype jsval =
    JUndefined
  | JNull
  | JBool bool
  | JNum string
  | JStr string
  | JArr "jsval list"
  | JObj "(string \<times> jsval) list"

text \<open>
  Conversion to text, as a template literal \<open>`${v}`\<close> performs it. An array is
  joined with commas, \<open>null\<close> and \<open>undefined\<close> elements giving the empty text. A plain
  object gives \<open>[object Object]\<close> through the inherited \<open>toString\<close>; an own property
  named \<open>toString\<close> hides the inherited method, is not callable (no parsed value
  is), and \<open>valueOf\<close> gives no primitive either, so the conversion raises a
  \<open>TypeError\<close>.
\<close>

fun to_string :: "jsval \<Rightarrow> js_error + string"
  and join_elements :: "jsval list \<Rightarrow> js_error + string" where
  "to_string JUndefined = Inr ''undefined''"
| "to_string JNull = Inr ''null''"
| "to_string (JBool b) = Inr (if b then ''true'' else ''false'')"
| "to_string (JNum t) = Inr t"
| "to_string (JStr s) = Inr s"
| "to_string (JArr xs) = join_elements xs"
| "to_string (JObj fs) =
     (if ''toString'' \<in> set (map fst fs)
      then Inl (TypeError ''Cannot convert object to primitive value'')
      else Inr ''[object Object]'')"
| "join_elements [] = Inr ''''"
| "join_elements [x] =
     (if x = JUndefined \<or> x = JNull then Inr '''' else to_string x)"
| "join_elements (x # y # ys) =
     (case (if x = JUndefined \<or> x = JNull then Inr '''' else to_string x) of
        Inl e \<Rightarrow> Inl e
      | Inr t \<Rightarrow>
          (case join_elements (y # ys) of
             Inl e \<Rightarrow> Inl e
           | Inr r \<Rightarrow> Inr (t @ '','' @ r)))"

text \<open>Truthiness, as \<open>||\<close> and \<open>if\<close> test it.\<close>

fun truthy :: "jsval \<Rightarrow> bool" where
  "truthy JUndefined = False"
| "truthy JNull = False"
| "truthy (JBool b) = b"
| "truthy (JNum t) = (t \<noteq> ''0'' \<and> t \<noteq> ''NaN'')"
| "truthy (JStr s) = (s \<noteq> '''')"
| "truthy (JArr xs) = True"
| "truthy (JObj fs) = True"

text \<open>
  Parameter destructuring \<open>({ k })\<close> for the keys the handlers use (\<open>query\<close>,
  \<open>workflow\<close>, \<open>data\<close>, \<open>code\<close>, none of which a prototype defines): \<open>null\<close> and
  \<open>undefined\<close> cannot be destructured, an object gives its own property
  (\<open>property\<close>) or \<open>undefined\<close>, every other value gives \<open>undefined\<close>.
\<close>

definition property :: "(string \<times> jsval) list \<Rightarrow> string \<Rightarrow> jsval" where
  "property fs k = (case map_of fs k of None \<Rightarrow> JUndefined | Some v \<Rightarrow> v)"

fun destructure :: "string \<Rightarrow> jsval \<Rightarrow> js_error + jsval" where
  "destructure k JUndefined =
     Inl (TypeError (''Cannot destructure property '' @ k @ '' of undefined''))"
| "destructure k JNull =
     Inl (TypeError (''Cannot destructure property '' @ k @ '' of null''))"
| "destructure k (JObj fs) = Inr (property fs k)"
| "destructure k v = Inr JUndefined"

text \<open>\<open>Object.entries\<close>: own enumerable properties; a key is a name or an index.\<close>

datatype key = Name string | Index nat

fun entries :: "jsval \<Rightarrow> js_error + (key \<times> jsval) list" where
  "entries JUndefined =
     Inl (TypeError ''Cannot convert undefined or null to object'')"
| "entries JNull =
     Inl (TypeError ''Cannot convert undefined or null to object'')"
| "entries (JObj fs) = Inr (map (\<lambda>(k, v). (Name k, v)) fs)"
| "entries (JArr xs) = Inr (map (\<lambda>(i, v). (Index i, v)) (enumerate 0 xs))"
| "entries (JStr s) = Inr (map (\<lambda>(i, c). (Index i, JStr [c])) (enumerate 0 s))"
| "entries v = Inr []"

text \<open>\<open>xs.join(sep)\<close> on texts.\<close>

fun join :: "string \<Rightarrow> string list \<Rightarrow> string" where
  "join sep [] = ''''"
| "join sep [x] = x"
| "join sep (x # y # ys) = x @ sep @ join sep (y # ys)"

section \<open>Data model\<close>

text \<open>
  A tool call \<open>{ id, function: { name, arguments } }\<close>; the nested \<open>function\<close>
  object is flattened into the fields \<open>tc_name\<close> and \<open>tc_arguments\<close>.
  \<open>has_function\<close> is \<open>False\<close> for a call object that has no \<open>function\<close> property; its
  name and arguments are then never read.
\<close>

record tool_call =
  tc_id :: string
  has_function :: bool
  tc_name :: string
  tc_arguments :: string

datatype role = User | Assistant | Tool

text \<open>An entry of \<open>this.conversation\<close>; a field the object lacks is \<open>None\<close>.\<close>

record turn =
  role :: role
  content :: "string option"
  tool_calls :: "tool_call list option"
  tool_call_id :: "string option"

text \<open>The message of a completion, \<open>data.choices[0].message\<close>.\<close>

datatype assistant_message =
  Message (msg_content: "string option") (msg_tool_calls: "tool_call list option")

datatype choice = Choice (choice_message: "assistant_message option")

text \<open>
  What \<open>fetch\<close> gives: a rejection (network failure), or a response with its \<open>ok\<close>
  flag, \<open>status\<close>, \<open>statusText\<close> and the outcome of \<open>response.json()\<close>, of which
  the program reads \<open>choices\<close> (\<open>None\<close> when there is no such array).
\<close>

datatype fetch_outcome =
    Rejected js_error
  | Response bool string string "js_error + choice list option"

record llm_config =
  provider :: string
  apiKey :: string
  model :: string
  baseUrl :: string

text \<open>
  The value of the global \<open>console.log\<close>: the native function, the capturing arrow
  function \<open>executeJS\<close> installs around the function it found, or a function
  installed by evaluated code.
\<close>

datatype log_fn = NativeLog | CaptureHook log_fn | UserLog nat

text \<open>
  The calls to the user-interface procedures, in the order they completed; the
  contents of the page are not modelled.
\<close>

datatype ui_event =
    MessageAdded string string
  | AlertShown string string
  | ToolCallShown string string "(key \<times> string) list"
  | ToolResultShown string jsval bool
  | LoadingShown
  | LoadingHidden
  | WelcomeShown

text \<open>
  The \<open>LLMAgent\<close> object with the globals it touches. \<open>console_log_writable\<close> tells
  whether \<open>console.log\<close> is a writable data property, as it is when the page is loaded;
  when it is not, it is the read-only property that \<open>Object.freeze(console)\<close> leaves,
  whose assignment raises in strict code. A \<open>console.log\<close> with a getter or setter is
  not modelled. \<open>requests\<close> is a log kept by the model, not a field of the program: the
  \<open>messages\<close> of every request sent to the backend.
\<close>

record agent =
  conversation :: "turn list"
  llmConfig :: "llm_config option"
  isProcessing :: bool
  messageInput_value :: string
  messageInput_disabled :: bool
  sendBtn_disabled :: bool
  ui :: "ui_event list"
  console_log :: log_fn
  console_log_writable :: bool
  requests :: "turn list list"

text \<open>
  The result of \<open>eval(code)\<close> as \<open>executeJS\<close> observes it. A returned value is
  \<open>undefined\<close>, a value with \<open>typeof result === 'object'\<close>, or another value; it
  carries the outcome of converting it to text the way line 397 does
  (\<open>JSON.stringify(result, null, 2)\<close> for the former, the template conversion for the
  latter), which raises for a cyclic structure or a symbol. A thrown value carries
  the text of its \<open>message\<close> (\<open>undefined\<close> for a value without one); \<open>None\<close> is a
  thrown \<open>null\<close> or \<open>undefined\<close>, whose \<open>message\<close> cannot be read.
\<close>

datatype result_value =
    Undefined
  | ObjectValue "js_error + string"
  | OtherValue "js_error + string"

datatype eval_outcome = Returned result_value | Threw "string option"

text \<open>
  A value of the local variable \<open>consoleOutput\<close> as lines 393 and 394 read it: whether
  it is truthy, and the outcome of converting it in the template.
\<close>

record local_value =
  is_truthy :: bool
  as_text :: "js_error + string"

definition text_value :: "string \<Rightarrow> local_value" where
  "text_value t = \<lparr>is_truthy = (t \<noteq> ''''), as_text = Inr t\<rparr>"

text \<open>
  The code is evaluated by a direct \<open>eval\<close> inside a method, so it reaches \<open>this\<close>,
  the locals of \<open>executeJS\<close> and the globals.
  \<open>log_calls\<close>: the calls it made to the capturing function, each the list of its
  arguments as the function's \<open>map\<close> turns them into text.
  \<open>consoleOutput_written\<close>: when the code assigned the local \<open>consoleOutput\<close>, the value
  the variable holds when the evaluation ends.
  \<open>agent_effect\<close>: what the code has done to the agent object, to \<open>console.log\<close> and
  to the page when \<open>eval\<close> returns or throws, as a function of the state it started
  in; any field may change, and a change to an object a field refers to counts as a
  change of that field. The methods of the agent and the built-in objects and functions
  (\<open>JSON\<close>, \<open>Array.prototype.push\<close>, \<open>fetch\<close>, the document) are taken to stay as they
  are, and what the code schedules for later (a timer, a reaction of a promise) is not
  modelled.
\<close>

record eval_result =
  log_calls :: "string list list"
  consoleOutput_written :: "local_value option"
  agent_effect :: "agent \<Rightarrow> agent"
  outcome :: eval_outcome

text \<open>
  The collaborators outside the program: the model backend (\<open>fetch\<close>, given the
  messages of every request so far, the current one last), \<open>JSON.parse\<close>,
  \<open>JSON.stringify\<close> (\<open>None\<close> is \<open>undefined\<close>), \<open>String.prototype.trim\<close> and \<open>eval\<close>
  (given the code and the state it is evaluated in).
\<close>

record runtime =
  fetch :: "turn list list \<Rightarrow> fetch_outcome"
  JSON_parse :: "string \<Rightarrow> js_error + jsval"
  JSON_stringify :: "jsval \<Rightarrow> string option"
  String_trim :: "string \<Rightarrow> string"
  js_eval :: "jsval \<Rightarrow> agent \<Rightarrow> eval_result"

section \<open>User-interface procedures and the conversation store\<close>

definition addMessage :: "string \<Rightarrow> string \<Rightarrow> agent \<Rightarrow> agent" where
  "addMessage r c s = s\<lparr>ui := ui s @ [MessageAdded r c]\<rparr>"

definition showAlert :: "string \<Rightarrow> string \<Rightarrow> agent \<Rightarrow> agent" where
  "showAlert m t s = s\<lparr>ui := ui s @ [AlertShown m t]\<rparr>"

definition showLoadingIndicator :: "agent \<Rightarrow> agent" where
  "showLoadingIndicator s = s\<lparr>ui := ui s @ [LoadingShown]\<rparr>"

definition hideLoadingIndicator :: "agent \<Rightarrow> agent" where
  "hideLoadingIndicator s = s\<lparr>ui := ui s @ [LoadingHidden]\<rparr>"

definition showToolResult :: "string \<Rightarrow> jsval \<Rightarrow> bool \<Rightarrow> agent \<Rightarrow> agent" where
  "showToolResult toolId result isError s =
     s\<lparr>ui := ui s @ [ToolResultShown toolId result isError]\<rparr>"

definition setProcessingState :: "bool \<Rightarrow> agent \<Rightarrow> agent" where
  "setProcessingState processing s =
     s\<lparr>isProcessing := processing,
       sendBtn_disabled := processing,
       messageInput_disabled := processing\<rparr>"

text \<open>\<open>this.conversation.push(t)\<close>.\<close>

definition push :: "turn \<Rightarrow> agent \<Rightarrow> agent" where
  "push t s = s\<lparr>conversation := conversation s @ [t]\<rparr>"

definition clearConversation :: "agent \<Rightarrow> agent" where
  "clearConversation s = s\<lparr>conversation := [], ui := ui s @ [WelcomeShown]\<rparr>"

text \<open>
  \<open>showToolCall\<close> parses the arguments once more to display them: each entry's value
  is put into a template, a text longer than 100 characters cut to 100 and
  \<open>...\<close>. The element is added to the page only after all of that. Line 435 reads
  \<open>toolCall.function.name\<close> first, which raises for a call without \<open>function\<close>.
\<close>

fun display_value :: "jsval \<Rightarrow> js_error + string" where
  "display_value (JStr v) = Inr (if length v > 100 then take 100 v @ ''...'' else v)"
| "display_value v = to_string v"

fun display_entries :: "(key \<times> jsval) list \<Rightarrow> js_error + (key \<times> string) list" where
  "display_entries [] = Inr []"
| "display_entries ((k, v) # es) =
     (case display_value v of
        Inl e \<Rightarrow> Inl e
      | Inr t \<Rightarrow>
          (case display_entries es of
             Inl e \<Rightarrow> Inl e
           | Inr ts \<Rightarrow> Inr ((k, t) # ts)))"

definition showToolCall :: "runtime \<Rightarrow> tool_call \<Rightarrow> agent \<Rightarrow> (js_error + unit) \<times> agent" where
  "showToolCall rt toolCall s =
     (if \<not> has_function toolCall then
        (Inl (TypeError ''Cannot read properties of undefined (reading name)''), s)
      else
        (case JSON_parse rt (tc_arguments toolCall) of
           Inl e \<Rightarrow> (Inl e, s)
         | Inr toolArgs \<Rightarrow>
             (case entries toolArgs of
                Inl e \<Rightarrow> (Inl e, s)
              | Inr es \<Rightarrow>
                  (case display_entries es of
                     Inl e \<Rightarrow> (Inl e, s)
                   | Inr ps \<Rightarrow>
                       (Inr (),
                        s\<lparr>ui := ui s @
                             [ToolCallShown (tc_id toolCall) (tc_name toolCall) ps]\<rparr>)))))"

section \<open>Tool handlers\<close>

definition search_results :: "string \<Rightarrow> string" where
  "search_results query =
     ''Search results for '' @ [CHR 0x22] @ query @ [CHR 0x22] @ '':\<newline>'' @
     ''\<newline>'' @
     ''1. **'' @ query @ '' - Official Website**\<newline>'' @
     ''   Comprehensive information about '' @ query @
       '', including history, services, and current developments.\<newline>'' @
     ''   \<newline>'' @
     ''2. **'' @ query @ '' News - Latest Updates** \<newline>'' @
     ''   Recent news and announcements related to '' @ query @
       '' from various sources.\<newline>'' @
     ''   \<newline>'' @
     ''3. **'' @ query @ '' Wikipedia**\<newline>'' @
     ''   Detailed encyclopedia entry covering background, operations, and notable facts about '' @
       query @ ''.\<newline>'' @
     ''\<newline>'' @
     ''*Note: This is a simulated search result. In production, integrate with Google Custom Search API.*''"

definition searchWeb :: "jsval \<Rightarrow> js_error + jsval" where
  "searchWeb args =
     (case destructure ''query'' args of
        Inl e \<Rightarrow> Inl e
      | Inr query \<Rightarrow>
          (case to_string query of
             Inl e \<Rightarrow> Inl e
           | Inr q \<Rightarrow> Inr (JStr (search_results q))))"

definition pipe_result :: "string \<Rightarrow> string \<Rightarrow> string" where
  "pipe_result workflow input =
     ''AI Pipe Workflow: '' @ [CHR 0x22] @ workflow @ [CHR 0x22] @ ''\<newline>'' @
     ''Input Data: '' @ input @ ''\<newline>'' @
     ''\<newline>'' @
     ''Processed Result: This is a simulated AI workflow result. The system would normally process the request through various AI models and return structured data based on the workflow description.\<newline>'' @
     ''\<newline>'' @
     ''*Note: This is a simulated result. In production, integrate with aipipe.org proxy API.*''"

definition aiPipe :: "jsval \<Rightarrow> js_error + jsval" where
  "aiPipe args =
     (case destructure ''workflow'' args of
        Inl e \<Rightarrow> Inl e
      | Inr workflow \<Rightarrow>
          (case destructure ''data'' args of
             Inl e \<Rightarrow> Inl e
           | Inr d \<Rightarrow>
               (let data = (if d = JUndefined then JStr '''' else d) in
                case to_string workflow of
                  Inl e \<Rightarrow> Inl e
                | Inr w \<Rightarrow>
                    (case (if truthy data then to_string data else Inr ''None provided'') of
                       Inl e \<Rightarrow> Inl e
                     | Inr i \<Rightarrow> Inr (JStr (pipe_result w i))))))"

text \<open>The text the capturing function has accumulated: one line per call.\<close>

definition captured :: "string list list \<Rightarrow> string" where
  "captured calls = concat (map (\<lambda>args. join '' '' args @ ''\<newline>'') calls)"

text \<open>Lines 392 to 400: the payload built from \<open>consoleOutput\<close> and the result.\<close>

definition format_output :: "local_value \<Rightarrow> result_value \<Rightarrow> js_error + string" where
  "format_output consoleOutput result =
     (case (if is_truthy consoleOutput then
              (case as_text consoleOutput of
                 Inl e \<Rightarrow> Inl e
               | Inr t \<Rightarrow> Inr (''Console Output:\<newline>'' @ t))
            else Inr '''') of
        Inl e \<Rightarrow> Inl e
      | Inr output \<Rightarrow>
          (case (case result of
                   Undefined \<Rightarrow> Inr output
                 | ObjectValue r \<Rightarrow>
                     (case r of
                        Inl e \<Rightarrow> Inl e
                      | Inr t \<Rightarrow>
                          Inr (output @ (if output \<noteq> '''' then ''\<newline>\<newline>'' else '''') @
                               ''Return Value:\<newline>'' @ t))
                 | OtherValue r \<Rightarrow>
                     (case r of
                        Inl e \<Rightarrow> Inl e
                      | Inr t \<Rightarrow>
                          Inr (output @ (if output \<noteq> '''' then ''\<newline>\<newline>'' else '''') @
                               ''Return Value:\<newline>'' @ t))) of
             Inl e \<Rightarrow> Inl e
           | Inr output' \<Rightarrow>
               Inr (if output' \<noteq> '''' then output'
                    else ''Code executed successfully (no output)'')))"

text \<open>
  \<open>console.log = f\<close> in the strict code of a class body: the assignment raises when
  the property is not writable.
\<close>

definition assign_console_log :: "log_fn \<Rightarrow> agent \<Rightarrow> js_error + agent" where
  "assign_console_log f s =
     (if console_log_writable s then Inr (s\<lparr>console_log := f\<rparr>)
      else Inl (TypeError ''Cannot assign to read only property log of object''))"

text \<open>
  The state in which the code is evaluated (the capturing function installed, line
  378) and the state when its evaluation ends.
\<close>

definition installed :: "agent \<Rightarrow> agent" where
  "installed s = s\<lparr>console_log := CaptureHook (console_log s)\<rparr>"

definition evaluated :: "runtime \<Rightarrow> jsval \<Rightarrow> agent \<Rightarrow> agent" where
  "evaluated rt code s =
     (agent_effect (js_eval rt code (installed s)) (installed s))\<lparr>requests := requests s\<rparr>"

text \<open>
  \<open>executeJS\<close>: the capturing function is installed (line 378, outside the \<open>try\<close>),
  the code evaluated, and \<open>console.log\<close> assigned the function found at entry, on line
  390 after a normal evaluation and on line 403 in the \<open>catch\<close>. The \<open>catch\<close> also
  receives a fault of lines 390 to 400, and what its own assignment raises leaves
  the function.
\<close>

definition executeJS :: "runtime \<Rightarrow> jsval \<Rightarrow> agent \<Rightarrow> (js_error + jsval) \<times> agent" where
  "executeJS rt args s =
     (case destructure ''code'' args of
        Inl e \<Rightarrow> (Inl e, s)
      | Inr code \<Rightarrow>
          (let originalLog = console_log s in
           case assign_console_log (CaptureHook originalLog) s of
             Inl e \<Rightarrow> (Inl e, s)
           | Inr s1 \<Rightarrow>
               (let r = js_eval rt code s1;
                    consoleOutput =
                      (case consoleOutput_written r of
                         None \<Rightarrow> text_value (captured (log_calls r))
                       | Some v \<Rightarrow> v);
                    s2 = (agent_effect r s1)\<lparr>requests := requests s1\<rparr>
                in case (case outcome r of
                           Threw thrown \<Rightarrow> (Inl thrown, s2)
                         | Returned result \<Rightarrow>
                             (case assign_console_log originalLog s2 of
                                Inl e \<Rightarrow> (Inl (Some (message e)), s2)
                              | Inr s3 \<Rightarrow>
                                  (case format_output consoleOutput result of
                                     Inl e \<Rightarrow> (Inl (Some (message e)), s3)
                                   | Inr output \<Rightarrow> (Inr output, s3)))) of
                     (Inr output, s3) \<Rightarrow> (Inr (JStr output), s3)
                   | (Inl thrown, s3) \<Rightarrow>
                       (case assign_console_log originalLog s3 of
                          Inl e \<Rightarrow> (Inl e, s3)
                        | Inr s4 \<Rightarrow>
                            (case thrown of
                               Some m \<Rightarrow>
                                 (Inl (Error (''JavaScript execution error: '' @ m)), s4)
                             | None \<Rightarrow>
                                 (Inl (TypeError
                                        ''Cannot read properties of null (reading message)''),
                                  s4))))))"

section \<open>The model client\<close>

text \<open>
  \<open>callLLM\<close>: every \<open>throw\<close> and every failing property read comes before the
  \<open>push\<close> of the assistant turn.
\<close>

definition callLLM :: "runtime \<Rightarrow> agent \<Rightarrow> (js_error + assistant_message) \<times> agent" where
  "callLLM rt s =
     (let s1 = showLoadingIndicator s in
      case llmConfig s1 of
        None \<Rightarrow> (Inl (TypeError ''Cannot read properties of null (reading model)''), s1)
      | Some cfg \<Rightarrow>
          (let s2 = s1\<lparr>requests := requests s1 @ [conversation s1]\<rparr> in
           case fetch rt (requests s2) of
             Rejected e \<Rightarrow> (Inl e, s2)
           | Response ok status statusText body \<Rightarrow>
               if \<not> ok then
                 (Inl (Error (''LLM API error: '' @ status @ '' '' @ statusText)), s2)
               else
                 (case body of
                    Inl e \<Rightarrow> (Inl e, s2)
                  | Inr None \<Rightarrow>
                      (Inl (TypeError ''Cannot read properties of undefined (reading 0)''), s2)
                  | Inr (Some []) \<Rightarrow>
                      (Inl (TypeError ''Cannot read properties of undefined (reading message)''),
                       s2)
                  | Inr (Some (c # cs)) \<Rightarrow>
                      (case choice_message c of
                         None \<Rightarrow>
                           (Inl (TypeError
                                  ''Cannot read properties of undefined (reading content)''),
                            s2)
                       | Some msg \<Rightarrow>
                           (Inr msg,
                            hideLoadingIndicator
                              (push \<lparr>role = Assistant,
                                     content = msg_content msg,
                                     tool_calls = msg_tool_calls msg,
                                     tool_call_id = None\<rparr> s2))))))"

section \<open>The tool executor\<close>

text \<open>The \<open>switch\<close> of \<open>handleToolCall\<close>, lines 305 to 317.\<close>

definition tool_switch :: "runtime \<Rightarrow> tool_call \<Rightarrow> agent \<Rightarrow> (js_error + jsval) \<times> agent" where
  "tool_switch rt toolCall s =
     (if tc_name toolCall = ''search_web'' then
        (case JSON_parse rt (tc_arguments toolCall) of
           Inl e \<Rightarrow> (Inl e, s)
         | Inr args \<Rightarrow> (searchWeb args, s))
      else if tc_name toolCall = ''ai_pipe'' then
        (case JSON_parse rt (tc_arguments toolCall) of
           Inl e \<Rightarrow> (Inl e, s)
         | Inr args \<Rightarrow> (aiPipe args, s))
      else if tc_name toolCall = ''execute_js'' then
        (case JSON_parse rt (tc_arguments toolCall) of
           Inl e \<Rightarrow> (Inl e, s)
         | Inr args \<Rightarrow> executeJS rt args s)
      else (Inl (Error (''Unknown tool: '' @ tc_name toolCall)), s))"

text \<open>Line 325: the content of the tool turn for a handler's result.\<close>

definition result_content :: "runtime \<Rightarrow> jsval \<Rightarrow> string option" where
  "result_content rt result =
     (case result of JStr text \<Rightarrow> Some text | _ \<Rightarrow> JSON_stringify rt result)"

text \<open>Lines 319 to 326: the result is shown and the tool turn pushed.\<close>

definition record_result :: "runtime \<Rightarrow> tool_call \<Rightarrow> jsval \<Rightarrow> agent \<Rightarrow> agent" where
  "record_result rt toolCall result s =
     push \<lparr>role = Tool,
            content = result_content rt result,
            tool_calls = None,
            tool_call_id = Some (tc_id toolCall)\<rparr>
       (showToolResult (tc_id toolCall) result False s)"

text \<open>
  \<open>handleToolCall\<close>: line 298 destructures \<open>toolCall.function\<close>, which raises for a
  call without it. \<open>showToolCall\<close> is called on line 300, before the \<open>try\<close> of line
  302, so what it raises leaves the function; what the \<open>switch\<close> raises is caught.
\<close>

definition handleToolCall :: "runtime \<Rightarrow> tool_call \<Rightarrow> agent \<Rightarrow> (js_error + unit) \<times> agent" where
  "handleToolCall rt toolCall s =
     (if \<not> has_function toolCall then
        (Inl (TypeError
               ''Cannot destructure property name of toolCall.function as it is undefined''),
         s)
      else
        (case showToolCall rt toolCall s of
           (Inl e, s1) \<Rightarrow> (Inl e, s1)
         | (Inr _, s1) \<Rightarrow>
             (case tool_switch rt toolCall s1 of
                (Inr result, s2) \<Rightarrow> (Inr (), record_result rt toolCall result s2)
              | (Inl error, s2) \<Rightarrow>
                  (let errorMsg = ''Tool execution failed: '' @ message error in
                   (Inr (),
                    push \<lparr>role = Tool,
                           content = Some errorMsg,
                           tool_calls = None,
                           tool_call_id = Some (tc_id toolCall)\<rparr>
                      (showToolResult (tc_id toolCall) (JStr errorMsg) True s2))))))"

section \<open>The agent loop\<close>

text \<open>The \<open>for\<close> loop of lines 242 to 244; an exception ends it.\<close>

fun executeToolCalls ::
  "runtime \<Rightarrow> tool_call list \<Rightarrow> agent \<Rightarrow> (js_error + unit) \<times> agent" where
  "executeToolCalls rt [] s = (Inr (), s)"
| "executeToolCalls rt (toolCall # rest) s =
     (case handleToolCall rt toolCall s of
        (Inl e, s1) \<Rightarrow> (Inl e, s1)
      | (Inr _, s1) \<Rightarrow> executeToolCalls rt rest s1)"

text \<open>
  The \<open>while\<close> loop of lines 232 to 249. It runs for as long as the backend answers
  with tool calls, so it need not end: \<open>None\<close> is a loop that never ends.
\<close>

partial_function (option) agentLoop_while ::
  "runtime \<Rightarrow> agent \<Rightarrow> ((js_error + unit) \<times> agent) option" where
  "agentLoop_while rt s =
     (case callLLM rt s of
        (Inl e, s1) \<Rightarrow> Some (Inl e, s1)
      | (Inr response, s1) \<Rightarrow>
          (let s2 = (case msg_content response of
                       None \<Rightarrow> s1
                     | Some c \<Rightarrow> if c \<noteq> '''' then addMessage ''agent'' c s1 else s1)
           in case msg_tool_calls response of
                None \<Rightarrow> Some (Inr (), s2)
              | Some [] \<Rightarrow> Some (Inr (), s2)
              | Some (toolCall # rest) \<Rightarrow>
                  (case executeToolCalls rt (toolCall # rest) s2 of
                     (Inl e, s3) \<Rightarrow> Some (Inl e, s3)
                   | (Inr _, s3) \<Rightarrow> agentLoop_while rt s3)))"

text \<open>\<open>agentLoop\<close>: the loop in its \<open>try\<close>, the \<open>catch\<close> and the \<open>finally\<close>.\<close>

definition agentLoop :: "runtime \<Rightarrow> agent \<Rightarrow> agent option" where
  "agentLoop rt s =
     (case agentLoop_while rt s of
        None \<Rightarrow> None
      | Some (Inr _, s1) \<Rightarrow> Some (setProcessingState False s1)
      | Some (Inl error, s1) \<Rightarrow>
          Some (setProcessingState False
                 (addMessage ''system'' (''Error: '' @ message error)
                   (showAlert (''Agent error: '' @ message error) ''danger'' s1))))"

definition handleUserMessage :: "runtime \<Rightarrow> agent \<Rightarrow> agent option" where
  "handleUserMessage rt s =
     (let message = String_trim rt (messageInput_value s) in
      if message = '''' \<or> isProcessing s then Some s
      else if llmConfig s = None then
        Some (showAlert ''Please configure an LLM provider first'' ''warning'' s)
      else
        agentLoop rt
          (push \<lparr>role = User, content = Some message, tool_calls = None, tool_call_id = None\<rparr>
            (addMessage ''user'' message
              (setProcessingState True (s\<lparr>messageInput_value := ''''\<rparr>)))))"

declare agentLoop_while.simps [code]

section \<open>Passes of the loop and the points where it is suspended\<close>

text \<open>Lines 236 to 238: the text of the answer, if any, is shown.\<close>

definition show_content :: "assistant_message \<Rightarrow> agent \<Rightarrow> agent" where
  "show_content response s =
     (case msg_content response of
        None \<Rightarrow> s
      | Some c \<Rightarrow> if c \<noteq> '''' then addMessage ''agent'' c s else s)"

text \<open>
  One pass of the \<open>while\<close> loop after which the loop goes on: the model call returns,
  the answer has tool calls, and all of them are executed. \<open>iterations rt n s\<close> is the
  state after \<open>n\<close> such passes.
\<close>

definition iteration :: "runtime \<Rightarrow> agent \<Rightarrow> agent option" where
  "iteration rt s =
     (case callLLM rt s of
        (Inl e, s1) \<Rightarrow> None
      | (Inr response, s1) \<Rightarrow>
          (case msg_tool_calls response of
             None \<Rightarrow> None
           | Some [] \<Rightarrow> None
           | Some (toolCall # rest) \<Rightarrow>
               (case executeToolCalls rt (toolCall # rest) (show_content response s1) of
                  (Inl e, s3) \<Rightarrow> None
                | (Inr _, s3) \<Rightarrow> Some s3)))"

fun iterations :: "runtime \<Rightarrow> nat \<Rightarrow> agent \<Rightarrow> agent option" where
  "iterations rt 0 s = Some s"
| "iterations rt (Suc n) s =
     (case iteration rt s of
        None \<Rightarrow> None
      | Some s' \<Rightarrow> iterations rt n s')"




section \<open>Test doubles for the worked examples\<close>

text \<open>The arguments \<open>{"code": "this.setProcessingState(false)"}\<close> of a tool call.\<close>

definition clear_flag_arguments :: string where
  "clear_flag_arguments =
     ''{'' @ [CHR 0x22] @ ''code'' @ [CHR 0x22] @ '': '' @ [CHR 0x22] @
     ''this.setProcessingState(false)'' @ [CHR 0x22] @ ''}''"

text \<open>
  A \<open>JSON.parse\<close> for the argument texts of the examples: \<open>{}\<close> is the empty object,
  \<open>clear_flag_arguments\<close> an object with a \<open>code\<close>, and \<open>{bad\<close> is not JSON.
\<close>

definition example_parse :: "string \<Rightarrow> js_error + jsval" where
  "example_parse text =
     (if text = ''{}'' then Inr (JObj [])
      else if text = clear_flag_arguments then
        Inr (JObj [(''code'', JStr ''this.setProcessingState(false)'')])
      else Inl (SyntaxError ''Expected property name or } in JSON at position 1''))"

text \<open>
  A \<open>trim\<close> for the texts of the examples, whose only white space is ASCII white
  space.
\<close>

definition is_space :: "char \<Rightarrow> bool" where
  "is_space c = (c \<in> set [CHR 0x20, CHR 0x09, CHR 0x0A, CHR 0x0B, CHR 0x0C, CHR 0x0D])"

definition example_trim :: "string \<Rightarrow> string" where
  "example_trim s = rev (dropWhile is_space (rev (dropWhile is_space s)))"

text \<open>A \<open>JSON.stringify\<close> for the one value the examples serialise, the empty object.\<close>

definition example_stringify :: "jsval \<Rightarrow> string option" where
  "example_stringify v = (if v = JObj [] then Some ''{}'' else None)"

text \<open>
  An \<open>eval\<close> for the code of the examples. \<open>1 + 1\<close> is the number 2.
  \<open>console.log(1, 2)\<close> logs one line and has no value. \<open>Symbol()\<close> is a symbol, which a
  template cannot convert to text. \<open>void Object.freeze(console)\<close> makes every property
  of \<open>console\<close> read-only and has no value.
  \<open>console.log(1, 2); void (consoleOutput = String())\<close> logs one line, then assigns the
  empty text to the local \<open>consoleOutput\<close>, and has no value. \<open>undefined\<close> (no code)
  evaluates to itself. None of them touches the agent object.
\<close>

definition example_eval :: "jsval \<Rightarrow> agent \<Rightarrow> eval_result" where
  "example_eval code s =
     (if code = JStr ''1 + 1'' then
        \<lparr>log_calls = [], consoleOutput_written = None, agent_effect = (\<lambda>u. u),
         outcome = Returned (OtherValue (Inr ''2''))\<rparr>
      else if code = JStr ''console.log(1, 2)'' then
        \<lparr>log_calls = [[''1'', ''2'']], consoleOutput_written = None, agent_effect = (\<lambda>u. u),
         outcome = Returned Undefined\<rparr>
      else if code = JStr ''Symbol()'' then
        \<lparr>log_calls = [], consoleOutput_written = None, agent_effect = (\<lambda>u. u),
         outcome = Returned (OtherValue
                     (Inl (TypeError ''Cannot convert a Symbol value to a string'')))\<rparr>
      else if code = JStr ''void Object.freeze(console)'' then
        \<lparr>log_calls = [], consoleOutput_written = None,
         agent_effect = (\<lambda>u. u\<lparr>console_log_writable := False\<rparr>),
         outcome = Returned Undefined\<rparr>
      else if code = JStr ''console.log(1, 2); void (consoleOutput = String())'' then
        \<lparr>log_calls = [[''1'', ''2'']], consoleOutput_written = Some (text_value ''''),
         agent_effect = (\<lambda>u. u), outcome = Returned Undefined\<rparr>
      else
        \<lparr>log_calls = [], consoleOutput_written = None, agent_effect = (\<lambda>u. u),
         outcome = Returned Undefined\<rparr>)"


text \<open>A backend that answers every request with a text and no tool calls.\<close>

definition answers_text :: "turn list list \<Rightarrow> fetch_outcome" where
  "answers_text reqs =
     Response True ''200'' ''OK'' (Inr (Some [Choice (Some (Message (Some ''Hello'') None))]))"

text \<open>A backend that answers every request with HTTP status 500.\<close>

definition server_error :: "turn list list \<Rightarrow> fetch_outcome" where
  "server_error reqs = Response False ''500'' ''Internal Server Error'' (Inr None)"

text \<open>
  A backend whose first answer requests three tool calls, the second of them with
  arguments that are not JSON, and whose later answers are texts.
\<close>

definition call_a :: tool_call where
  "call_a = \<lparr>tc_id = ''call_a'', has_function = True, tc_name = ''search_web'',
             tc_arguments = ''{}''\<rparr>"

definition call_b :: tool_call where
  "call_b = \<lparr>tc_id = ''call_b'', has_function = True, tc_name = ''ai_pipe'',
             tc_arguments = ''{bad''\<rparr>"

definition call_c :: tool_call where
  "call_c = \<lparr>tc_id = ''call_c'', has_function = True, tc_name = ''execute_js'',
             tc_arguments = ''{}''\<rparr>"

definition requests_tools_once :: "turn list list \<Rightarrow> fetch_outcome" where
  "requests_tools_once reqs =
     (if length reqs = 1 then
        Response True ''200'' ''OK''
          (Inr (Some [Choice (Some (Message None (Some [call_a, call_b, call_c])))]))
      else answers_text reqs)"

text \<open>
  A backend whose first answer requests the call \<open>call_c\<close> and whose later answers are
  HTTP status 500.
\<close>

definition tool_then_error :: "turn list list \<Rightarrow> fetch_outcome" where
  "tool_then_error reqs =
     (if length reqs = 1 then
        Response True ''200'' ''OK'' (Inr (Some [Choice (Some (Message None (Some [call_c])))]))
      else server_error reqs)"

text \<open>
  A backend whose answer has a tool call without the \<open>function\<close> property:
  \<open>{"id": "call_x"}\<close>.
\<close>

definition call_x :: tool_call where
  "call_x = \<lparr>tc_id = ''call_x'', has_function = False, tc_name = '''', tc_arguments = ''''\<rparr>"

definition malformed_tool_call :: "turn list list \<Rightarrow> fetch_outcome" where
  "malformed_tool_call reqs =
     Response True ''200'' ''OK'' (Inr (Some [Choice (Some (Message None (Some [call_x])))]))"



text \<open>The runtime of the examples.\<close>

definition example_runtime :: runtime where
  "example_runtime =
     \<lparr>fetch = answers_text,
      JSON_parse = example_parse,
      JSON_stringify = example_stringify,
      String_trim = example_trim,
      js_eval = example_eval\<rparr>"


text \<open>A configured session in which the user has typed \<open>hi\<close>.\<close>

definition example_session :: agent where
  "example_session =
     \<lparr>conversation = [],
      llmConfig = Some \<lparr>provider = ''openai'', apiKey = ''sk-test'', model = ''gpt-3.5-turbo'',
                        baseUrl = ''https://api.openai.com/v1''\<rparr>,
      isProcessing = False,
      messageInput_value = ''hi'',
      messageInput_disabled = False,
      sendBtn_disabled = False,
      ui = [],
      console_log = NativeLog,
      console_log_writable = True,
      requests = []\<rparr>"

section \<open>Frame lemmas\<close>

lemma showToolCall_cases:
  "(\<exists>e. showToolCall rt toolCall s = (Inl e, s)) \<or>
   (\<exists>ps. showToolCall rt toolCall s =
      (Inr (), s\<lparr>ui := ui s @ [ToolCallShown (tc_id toolCall) (tc_name toolCall) ps]\<rparr>))"
  by (auto simp: showToolCall_def split: sum.splits)

lemma showToolCall_conversation:
  "conversation (snd (showToolCall rt toolCall s)) = conversation s"
  using showToolCall_cases [of rt toolCall s] by auto


lemma showToolCall_has_function:
  "fst (showToolCall rt toolCall s) = Inr () \<Longrightarrow> has_function toolCall"
  by (auto simp: showToolCall_def split: if_splits)

section \<open>The conversation store\<close>

theorem clearConversation_empty: "conversation (clearConversation s) = []"
  by (simp add: clearConversation_def)

section \<open>The tool executor\<close>

lemma handleToolCall_raises:
  "fst (showToolCall rt toolCall s) = Inl e \<Longrightarrow> has_function toolCall \<Longrightarrow>
   handleToolCall rt toolCall s = (Inl e, s)"
  using showToolCall_cases [of rt toolCall s]
  by (auto simp: handleToolCall_def)

lemma handleToolCall_answers:
  assumes "fst (showToolCall rt toolCall s) = Inr ()"
  shows "\<exists>c. fst (handleToolCall rt toolCall s) = Inr () \<and>
     conversation (snd (handleToolCall rt toolCall s)) =
       conversation (snd (tool_switch rt toolCall (snd (showToolCall rt toolCall s)))) @
         [\<lparr>role = Tool, content = c, tool_calls = None,
           tool_call_id = Some (tc_id toolCall)\<rparr>]"
proof -
  have f: "has_function toolCall"
    using assms by (rule showToolCall_has_function)
  obtain u where u: "showToolCall rt toolCall s = (Inr (), u)"
    using assms by (cases "showToolCall rt toolCall s") auto
  obtain r v where sw: "tool_switch rt toolCall u = (r, v)"
    by (cases "tool_switch rt toolCall u") auto
  show ?thesis
    by (cases r)
      (simp_all add: handleToolCall_def f u sw push_def showToolResult_def record_result_def
        Let_def)
qed

lemma handleToolCall_unknown_tool:
  assumes "fst (showToolCall rt toolCall s) = Inr ()"
    and "tc_name toolCall \<noteq> ''search_web''"
    and "tc_name toolCall \<noteq> ''ai_pipe''"
    and "tc_name toolCall \<noteq> ''execute_js''"
  shows "fst (handleToolCall rt toolCall s) = Inr () \<and>
     conversation (snd (handleToolCall rt toolCall s)) =
       conversation s @
         [\<lparr>role = Tool,
           content = Some (''Tool execution failed: Unknown tool: '' @ tc_name toolCall),
           tool_calls = None,
           tool_call_id = Some (tc_id toolCall)\<rparr>]"
proof -
  have f: "has_function toolCall"
    using assms(1) by (rule showToolCall_has_function)
  obtain u where u: "showToolCall rt toolCall s = (Inr (), u)"
    using assms(1) by (cases "showToolCall rt toolCall s") auto
  have cu: "conversation u = conversation s"
    using showToolCall_conversation [of rt toolCall s] u by simp
  show ?thesis
    using assms(2-4)
    by (simp add: handleToolCall_def f u tool_switch_def cu push_def showToolResult_def Let_def)
qed

text \<open>
  C1. The claim is that no tool call makes \<open>handleToolCall\<close> raise, and that each gets
  its tool turn. The program does otherwise for a call whose arguments are not JSON:
  for the call \<open>call_b\<close> (\<open>ai_pipe\<close> with the arguments \<open>{bad\<close>) the \<open>SyntaxError\<close> of
  the \<open>JSON.parse\<close> in \<open>showToolCall\<close> leaves \<open>handleToolCall\<close>, and the state is as
  before: no tool turn has been appended.
\<close>

theorem handleToolCall_unparseable_arguments:
  "handleToolCall example_runtime call_b example_session =
     (Inl (SyntaxError ''Expected property name or } in JSON at position 1''), example_session)"
  by (simp add: handleToolCall_def showToolCall_def example_runtime_def example_parse_def
      call_b_def clear_flag_arguments_def)

text \<open>
  C2. The claim is that every tool call of an assistant turn has its tool turn before
  the next request to the model. The program does otherwise after a call whose
  arguments are not JSON: the backend \<open>requests_tools_once\<close> asks for the calls
  \<open>call_a\<close>, \<open>call_b\<close>, \<open>call_c\<close>; \<open>call_a\<close> is answered, \<open>call_b\<close> ends the loop, and the
  request that the next user message sends holds the assistant turn with its three
  calls and the one tool turn of \<open>call_a\<close>. Each turn is shown as its role, the
  identifiers of its tool calls and its \<open>tool_call_id\<close>.
\<close>

theorem next_request_with_unanswered_calls:
  "map_option
     (\<lambda>s. map (map (\<lambda>t. (role t, map_option (map tc_id) (tool_calls t), tool_call_id t)))
            (requests s))
     (Option.bind
        (handleUserMessage (example_runtime\<lparr>fetch := requests_tools_once\<rparr>) example_session)
        (\<lambda>s. handleUserMessage (example_runtime\<lparr>fetch := requests_tools_once\<rparr>)
               (s\<lparr>messageInput_value := ''again''\<rparr>))) =
   Some [[(User, None, None)],
         [(User, None, None),
          (Assistant, Some [''call_a'', ''call_b'', ''call_c''], None),
          (Tool, None, Some ''call_a''),
          (User, None, None)]]"
  apply (simp add: handleUserMessage_def example_session_def example_runtime_def
      example_trim_def is_space_def agentLoop_def setProcessingState_def addMessage_def push_def)
  apply (subst agentLoop_while.simps)
  apply (simp add: callLLM_def showLoadingIndicator_def hideLoadingIndicator_def push_def
      Let_def handleToolCall_def showToolCall_def tool_switch_def searchWeb_def property_def
      showToolResult_def result_content_def record_result_def showAlert_def addMessage_def
      setProcessingState_def handleUserMessage_def example_trim_def is_space_def agentLoop_def
      example_runtime_def requests_tools_once_def answers_text_def call_a_def call_b_def
      call_c_def example_parse_def clear_flag_arguments_def)
  apply (subst agentLoop_while.simps)
  apply (simp add: callLLM_def showLoadingIndicator_def hideLoadingIndicator_def push_def
      Let_def addMessage_def setProcessingState_def example_runtime_def
      requests_tools_once_def answers_text_def)
  done

lemma executeJS_conversation:
  assumes "\<forall>code u. conversation (agent_effect (js_eval rt code u) u) = conversation u"
  shows "conversation (snd (executeJS rt args s)) = conversation s"
  using assms
  by (simp add: executeJS_def assign_console_log_def Let_def
      split: sum.splits option.splits eval_outcome.splits)

lemma tool_switch_conversation:
  assumes "\<forall>code u. conversation (agent_effect (js_eval rt code u) u) = conversation u"
  shows "conversation (snd (tool_switch rt toolCall s)) = conversation s"
  using executeJS_conversation [OF assms]
  by (simp add: tool_switch_def split: sum.splits)

text \<open>
  When every call of a batch can be displayed and no evaluated code touches the
  conversation, the \<open>for\<close> loop completes and has appended one tool turn per call, in
  the order of the calls.
\<close>

lemma executeToolCalls_answers_all:
  assumes "\<forall>toolCall \<in> set toolCalls. \<forall>u. fst (showToolCall rt toolCall u) = Inr ()"
    and "\<forall>code u. conversation (agent_effect (js_eval rt code u) u) = conversation u"
  shows "fst (executeToolCalls rt toolCalls s) = Inr () \<and>
     (\<exists>new. conversation (snd (executeToolCalls rt toolCalls s)) = conversation s @ new \<and>
        map role new = map (\<lambda>toolCall. Tool) toolCalls \<and>
        map tool_call_id new = map (\<lambda>toolCall. Some (tc_id toolCall)) toolCalls)"
  using assms(1)
proof (induction toolCalls arbitrary: s)
  case Nil
  then show ?case by simp
next
  case (Cons toolCall rest)
  from Cons.prems have ok: "fst (showToolCall rt toolCall s) = Inr ()" by simp
  have sc: "conversation (snd (tool_switch rt toolCall (snd (showToolCall rt toolCall s)))) =
     conversation s"
    using tool_switch_conversation [OF assms(2)] showToolCall_conversation by simp
  from handleToolCall_answers [OF ok] sc obtain c where
    h: "fst (handleToolCall rt toolCall s) = Inr ()"
    and hc: "conversation (snd (handleToolCall rt toolCall s)) =
       conversation s @ [\<lparr>role = Tool, content = c, tool_calls = None,
                          tool_call_id = Some (tc_id toolCall)\<rparr>]"
    by auto
  obtain s1 where s1: "handleToolCall rt toolCall s = (Inr (), s1)"
    using h by (cases "handleToolCall rt toolCall s") auto
  from Cons.prems
  have "\<forall>toolCall \<in> set rest. \<forall>u. fst (showToolCall rt toolCall u) = Inr ()"
    by simp
  from Cons.IH [OF this, of s1] obtain new where
    r: "fst (executeToolCalls rt rest s1) = Inr ()"
    and rc: "conversation (snd (executeToolCalls rt rest s1)) = conversation s1 @ new"
    and rr: "map role new = map (\<lambda>toolCall. Tool) rest"
    and ri: "map tool_call_id new = map (\<lambda>toolCall. Some (tc_id toolCall)) rest"
    by blast
  have c1: "conversation s1 =
     conversation s @ [\<lparr>role = Tool, content = c, tool_calls = None,
                        tool_call_id = Some (tc_id toolCall)\<rparr>]"
    using hc s1 by simp
  show ?case
    using r rc rr ri c1 by (simp add: s1)
qed

section \<open>The search and pipe handlers\<close>

lemma display_value_to_string: "display_value v = Inr t \<Longrightarrow> \<exists>t'. to_string v = Inr t'"
  by (cases v) auto

lemma display_entries_to_string:
  "display_entries es = Inr ps \<Longrightarrow> (k, v) \<in> set es \<Longrightarrow> \<exists>t. to_string v = Inr t"
proof (induction es arbitrary: ps)
  case Nil
  then show ?case by simp
next
  case (Cons e es)
  obtain k' v' where e: "e = (k', v')" by (cases e)
  from Cons.prems(1) obtain t' ts where
    dv: "display_value v' = Inr t'" and de: "display_entries es = Inr ts"
    by (auto simp: e split: sum.splits)
  show ?case
  proof (cases "(k, v) = (k', v')")
    case True
    then show ?thesis using display_value_to_string [OF dv] by simp
  next
    case False
    then have "(k, v) \<in> set es" using Cons.prems(2) e by auto
    then show ?thesis using Cons.IH [OF de] by blast
  qed
qed

lemma displayed_property_converts:
  assumes "display_entries (map (\<lambda>(k, v). (Name k, v)) fs) = Inr ps"
  shows "\<exists>t. to_string (property fs k) = Inr t"
proof (cases "map_of fs k")
  case None
  then show ?thesis by (simp add: property_def)
next
  case (Some v)
  then have "(k, v) \<in> set fs" by (rule map_of_SomeD)
  then have "(Name k, v) \<in> set (map (\<lambda>(k, v). (Name k, v)) fs)" by force
  from display_entries_to_string [OF assms this] show ?thesis
    using Some by (simp add: property_def)
qed

text \<open>
  Arguments that \<open>showToolCall\<close> has displayed are arguments on which both handlers
  return a text.
\<close>

lemma displayed_arguments_handled:
  assumes "entries args = Inr es" and "display_entries es = Inr ps"
  shows "(\<exists>t. searchWeb args = Inr (JStr t)) \<and> (\<exists>t. aiPipe args = Inr (JStr t))"
proof (cases args)
  case (JObj fs)
  with assms have d: "display_entries (map (\<lambda>(k, v). (Name k, v)) fs) = Inr ps" by auto
  obtain q where q: "to_string (property fs ''query'') = Inr q"
    using displayed_property_converts [OF d] by blast
  obtain w where w: "to_string (property fs ''workflow'') = Inr w"
    using displayed_property_converts [OF d] by blast
  obtain i where i: "to_string (property fs ''data'') = Inr i"
    using displayed_property_converts [OF d] by blast
  show ?thesis
    using q w i by (simp add: JObj searchWeb_def aiPipe_def Let_def)
qed (use assms in \<open>simp_all add: searchWeb_def aiPipe_def\<close>)

text \<open>
  C10, as stated, fails: an argument object whose \<open>query\<close> (or \<open>workflow\<close>) is an object
  with an own \<open>toString\<close> property, such as \<open>{"query": {"toString": 1}}\<close>, makes the
  template of the handler raise a \<open>TypeError\<close>.
\<close>

theorem handlers_raise_on_toString_property:
  "searchWeb (JObj [(''query'', JObj [(''toString'', JNum ''1'')])]) =
     Inl (TypeError ''Cannot convert object to primitive value'') \<and>
   aiPipe (JObj [(''workflow'', JObj [(''toString'', JNum ''1'')])]) =
     Inl (TypeError ''Cannot convert object to primitive value'')"
  by (simp add: searchWeb_def aiPipe_def property_def)

text \<open>
  C10, amended. For every argument object whose \<open>query\<close> converts to text (a missing
  field is \<open>undefined\<close> and converts), \<open>searchWeb\<close> returns its text; for every argument
  object whose \<open>workflow\<close> and \<open>data\<close> convert to text, \<open>aiPipe\<close> returns its text, with
  \<open>None provided\<close> for a missing or falsy \<open>data\<close>. The executor calls the handlers only
  after \<open>showToolCall\<close> has converted every field of the arguments, so a \<open>search_web\<close>
  or \<open>ai_pipe\<close> call that has been displayed always gets a success payload: the
  failure branch of the executor is not reached through these two handlers.
\<close>

theorem search_and_pipe_succeed:
  "(to_string (property fs ''query'') = Inr q \<longrightarrow>
      searchWeb (JObj fs) = Inr (JStr (search_results q))) \<and>
   (to_string (property fs ''workflow'') = Inr w \<and> to_string (property fs ''data'') = Inr d \<longrightarrow>
      aiPipe (JObj fs) =
        Inr (JStr (pipe_result w
               (if truthy (property fs ''data'') then d else ''None provided'')))) \<and>
   (fst (showToolCall rt toolCall s) = Inr () \<and>
    (tc_name toolCall = ''search_web'' \<or> tc_name toolCall = ''ai_pipe'') \<longrightarrow>
      (\<exists>t. fst (tool_switch rt toolCall s) = Inr (JStr t)))"
proof (intro conjI impI)
  assume "to_string (property fs ''query'') = Inr q"
  then show "searchWeb (JObj fs) = Inr (JStr (search_results q))"
    by (simp add: searchWeb_def)
next
  assume "to_string (property fs ''workflow'') = Inr w \<and> to_string (property fs ''data'') = Inr d"
  then show "aiPipe (JObj fs) =
      Inr (JStr (pipe_result w (if truthy (property fs ''data'') then d else ''None provided'')))"
    by (auto simp: aiPipe_def Let_def)
next
  assume a: "fst (showToolCall rt toolCall s) = Inr () \<and>
    (tc_name toolCall = ''search_web'' \<or> tc_name toolCall = ''ai_pipe'')"
  then obtain args es ps where p: "JSON_parse rt (tc_arguments toolCall) = Inr args"
    and e: "entries args = Inr es" and d: "display_entries es = Inr ps"
    by (auto simp: showToolCall_def split: sum.splits if_splits)
  from displayed_arguments_handled [OF e d] obtain t1 t2 where
    "searchWeb args = Inr (JStr t1)" and "aiPipe args = Inr (JStr t2)"
    by blast
  then show "\<exists>t. fst (tool_switch rt toolCall s) = Inr (JStr t)"
    using a p by (auto simp: tool_switch_def)
qed

theorem search_and_pipe_succeed_witness:
  "to_string (property [(''query'', JStr ''cats''), (''workflow'', JStr ''summarise'')] ''query'') =
     Inr ''cats'' \<and>
   searchWeb (JObj [(''query'', JStr ''cats''), (''workflow'', JStr ''summarise'')]) =
     Inr (JStr (search_results ''cats'')) \<and>
   to_string (property [(''query'', JStr ''cats''), (''workflow'', JStr ''summarise'')] ''workflow'') =
     Inr ''summarise'' \<and>
   to_string (property [(''query'', JStr ''cats''), (''workflow'', JStr ''summarise'')] ''data'') =
     Inr ''undefined'' \<and>
   aiPipe (JObj [(''query'', JStr ''cats''), (''workflow'', JStr ''summarise'')]) =
     Inr (JStr (pipe_result ''summarise'' ''None provided'')) \<and>
   fst (showToolCall example_runtime call_a example_session) = Inr () \<and>
   tc_name call_a = ''search_web'' \<and>
   (\<exists>t. fst (tool_switch example_runtime call_a example_session) = Inr (JStr t))"
proof -
  have a: "fst (showToolCall example_runtime call_a example_session) = Inr ()"
    by (simp add: showToolCall_def example_runtime_def example_parse_def call_a_def
        clear_flag_arguments_def)
  have b: "tc_name call_a = ''search_web''"
    by (simp add: call_a_def)
  show ?thesis
    using a b search_and_pipe_succeed
      [of "[(''query'', JStr ''cats''), (''workflow'', JStr ''summarise'')]"
          "''cats''" "''summarise''" "''undefined''" example_runtime call_a example_session]
    by (simp add: property_def)
qed

section \<open>The agent loop and the model client\<close>

text \<open>The model call raises exactly in these cases, all of them before the \<open>push\<close>.\<close>

lemma callLLM_raises_cases:
  "(\<exists>e. fst (callLLM rt s) = Inl e) \<longleftrightarrow>
     (llmConfig s = None \<or>
      (case fetch rt (requests s @ [conversation s]) of
         Rejected e \<Rightarrow> True
       | Response ok status statusText body \<Rightarrow>
           \<not> ok \<or>
           (case body of
              Inl e \<Rightarrow> True
            | Inr None \<Rightarrow> True
            | Inr (Some []) \<Rightarrow> True
            | Inr (Some (c # cs)) \<Rightarrow> choice_message c = None)))"
  by (auto simp: callLLM_def Let_def showLoadingIndicator_def
      split: option.splits fetch_outcome.splits sum.splits list.splits)

lemma callLLM_raises_conversation:
  "fst (callLLM rt s) = Inl e \<Longrightarrow> conversation (snd (callLLM rt s)) = conversation s"
  by (auto simp: callLLM_def Let_def showLoadingIndicator_def
      split: option.splits fetch_outcome.splits sum.splits list.splits if_splits)

lemma callLLM_raises_ui:
  "fst (callLLM rt s) = Inl e \<Longrightarrow> ui (snd (callLLM rt s)) = ui s @ [LoadingShown]"
  by (auto simp: callLLM_def Let_def showLoadingIndicator_def
      split: option.splits fetch_outcome.splits sum.splits list.splits if_splits)

text \<open>
  C3. When the backend answers the request with a message whose \<open>tool_calls\<close> are
  absent or empty, the agent loop ends: it has sent exactly that one request, appended
  the one assistant turn, shown the text of the message if it has one, called no tool
  (no tool call or tool result is shown, \<open>console.log\<close> is untouched) and cleared the
  busy flag.
\<close>

theorem agentLoop_no_tool_calls:
  assumes "llmConfig s = Some cfg"
    and "fetch rt (requests s @ [conversation s]) =
           Response True status statusText (Inr (Some (Choice (Some msg) # cs)))"
    and "msg_tool_calls msg = None \<or> msg_tool_calls msg = Some []"
  shows "\<exists>s'. agentLoop rt s = Some s' \<and>
     requests s' = requests s @ [conversation s] \<and>
     conversation s' =
       conversation s @
         [\<lparr>role = Assistant, content = msg_content msg, tool_calls = msg_tool_calls msg,
           tool_call_id = None\<rparr>] \<and>
     ui s' =
       ui s @ [LoadingShown, LoadingHidden] @
         (case msg_content msg of
            None \<Rightarrow> []
          | Some c \<Rightarrow> if c \<noteq> '''' then [MessageAdded ''agent'' c] else []) \<and>
     console_log s' = console_log s \<and>
     \<not> isProcessing s'"
proof -
  let ?s1 = "hideLoadingIndicator
               (push \<lparr>role = Assistant, content = msg_content msg,
                      tool_calls = msg_tool_calls msg, tool_call_id = None\<rparr>
                 ((showLoadingIndicator s)\<lparr>requests := requests s @ [conversation s]\<rparr>))"
  have call: "callLLM rt s = (Inr msg, ?s1)"
    using assms(1,2) by (simp add: callLLM_def Let_def showLoadingIndicator_def)
  let ?s2 = "case msg_content msg of
               None \<Rightarrow> ?s1
             | Some c \<Rightarrow> if c \<noteq> '''' then addMessage ''agent'' c ?s1 else ?s1"
  have w: "agentLoop_while rt s = Some (Inr (), ?s2)"
    using assms(3) by (subst agentLoop_while.simps) (auto simp: call Let_def)
  show ?thesis
    by (simp add: agentLoop_def w setProcessingState_def addMessage_def hideLoadingIndicator_def
        push_def showLoadingIndicator_def split: option.splits)
qed

theorem agentLoop_no_tool_calls_witness:
  "llmConfig example_session =
     Some \<lparr>provider = ''openai'', apiKey = ''sk-test'', model = ''gpt-3.5-turbo'',
           baseUrl = ''https://api.openai.com/v1''\<rparr> \<and>
   fetch example_runtime (requests example_session @ [conversation example_session]) =
     Response True ''200'' ''OK'' (Inr (Some [Choice (Some (Message (Some ''Hello'') None))])) \<and>
   msg_tool_calls (Message (Some ''Hello'') None) = None \<and>
   (\<exists>s'. agentLoop example_runtime example_session = Some s' \<and>
      requests s' = [[]] \<and>
      conversation s' =
        [\<lparr>role = Assistant, content = Some ''Hello'', tool_calls = None, tool_call_id = None\<rparr>] \<and>
      ui s' = [LoadingShown, LoadingHidden, MessageAdded ''agent'' ''Hello''] \<and>
      console_log s' = NativeLog \<and>
      \<not> isProcessing s')"
proof -
  have a: "llmConfig example_session =
     Some \<lparr>provider = ''openai'', apiKey = ''sk-test'', model = ''gpt-3.5-turbo'',
           baseUrl = ''https://api.openai.com/v1''\<rparr>"
    by (simp add: example_session_def)
  have b: "fetch example_runtime (requests example_session @ [conversation example_session]) =
     Response True ''200'' ''OK'' (Inr (Some [Choice (Some (Message (Some ''Hello'') None))]))"
    by (simp add: example_runtime_def answers_text_def)
  have c: "msg_tool_calls (Message (Some ''Hello'') None) = None \<or>
     msg_tool_calls (Message (Some ''Hello'') None) = Some []"
    by simp
  show ?thesis
    using a b agentLoop_no_tool_calls [OF a b c]
    by (simp add: example_session_def)
qed

text \<open>A pass after which the loop goes on leaves the rest of the loop to do.\<close>

lemma agentLoop_while_iteration:
  assumes "iteration rt s = Some s'"
  shows "agentLoop_while rt s = agentLoop_while rt s'"
proof -
  obtain r s1 where c: "callLLM rt s = (r, s1)"
    by (cases "callLLM rt s") auto
  from assms c obtain response where r: "r = Inr response"
    by (cases r) (auto simp: iteration_def)
  from assms c r obtain toolCall rest where
    t: "msg_tool_calls response = Some (toolCall # rest)"
    by (auto simp: iteration_def split: option.splits list.splits)
  from assms c r t have
    e: "executeToolCalls rt (toolCall # rest) (show_content response s1) = (Inr (), s')"
    by (auto simp: iteration_def split: prod.splits sum.splits)
  have sc: "(case msg_content response of
               None \<Rightarrow> s1
             | Some c \<Rightarrow> if c \<noteq> '''' then addMessage ''agent'' c s1 else s1) =
            show_content response s1"
    by (simp add: show_content_def)
  show ?thesis
    apply (subst agentLoop_while.simps)
    apply (simp only: c r t sc Let_def prod.case sum.case option.case list.case e)
    done
qed

lemma agentLoop_iterations:
  "iterations rt n s = Some u \<Longrightarrow> agentLoop rt s = agentLoop rt u"
proof (induction n arbitrary: s)
  case 0
  then show ?case by simp
next
  case (Suc n)
  from Suc.prems obtain s' where i: "iteration rt s = Some s'"
    and r: "iterations rt n s' = Some u"
    by (auto split: option.splits)
  have "agentLoop rt s = agentLoop rt s'"
    using agentLoop_while_iteration [OF i] by (simp add: agentLoop_def)
  then show ?case using Suc.IH [OF r] by simp
qed

lemma agentLoop_first_call_error:
  assumes "fst (callLLM rt s) = Inl e"
  shows "\<exists>s'. agentLoop rt s = Some s' \<and>
     conversation s' = conversation s \<and>
     ui s' =
       ui s @ [LoadingShown,
               AlertShown (''Agent error: '' @ message e) ''danger'',
               MessageAdded ''system'' (''Error: '' @ message e)] \<and>
     \<not> isProcessing s'"
proof -
  obtain s1 where s1: "callLLM rt s = (Inl e, s1)"
    using assms by (cases "callLLM rt s") auto
  have w: "agentLoop_while rt s = Some (Inl e, s1)"
    by (subst agentLoop_while.simps) (simp add: s1)
  have c: "conversation s1 = conversation s"
    using callLLM_raises_conversation [OF assms] s1 by simp
  have u: "ui s1 = ui s @ [LoadingShown]"
    using callLLM_raises_ui [OF assms] s1 by simp
  show ?thesis
    by (simp add: agentLoop_def w c u setProcessingState_def addMessage_def showAlert_def)
qed

text \<open>
  C4, as stated, fails: a response whose message has a tool call without the
  \<open>function\<close> property is a payload that misses an expected field, and its assistant turn
  is appended: \<open>callLLM\<close> pushes the message as it is (line 287), and the fault surfaces
  on line 298, in the tool step. The loop ends with the error shown and the malformed
  assistant turn in the conversation.
\<close>

theorem malformed_tool_call_appended:
  "map_option (\<lambda>s. (map (\<lambda>t. (role t, map_option (map has_function) (tool_calls t)))
                         (conversation s),
                    ui s))
     (agentLoop (example_runtime\<lparr>fetch := malformed_tool_call\<rparr>) example_session) =
   Some ([(Assistant, Some [False])],
         [LoadingShown, LoadingHidden,
          AlertShown
            ''Agent error: Cannot destructure property name of toolCall.function as it is undefined''
            ''danger'',
          MessageAdded ''system''
            ''Error: Cannot destructure property name of toolCall.function as it is undefined''])"
  apply (simp add: agentLoop_def)
  apply (subst agentLoop_while.simps)
  apply (simp add: callLLM_def showLoadingIndicator_def hideLoadingIndicator_def push_def
      Let_def handleToolCall_def showAlert_def addMessage_def setProcessingState_def
      example_runtime_def malformed_tool_call_def call_x_def example_session_def)
  done

text \<open>
  C4, amended. When a model call raises (a rejected \<open>fetch\<close>, a response that is not
  \<open>ok\<close>, a body that is not JSON or has no \<open>choices[0].message\<close>), be it the first call
  of the loop or the call after any number of passes, the loop ends with the
  conversation exactly as it was before that call: no assistant turn is appended for
  it. The error is shown to the user as an alert and a system message, and the busy
  flag is cleared.
\<close>

theorem agentLoop_model_error:
  assumes "iterations rt n s = Some u"
    and "fst (callLLM rt u) = Inl e"
  shows "\<exists>s'. agentLoop rt s = Some s' \<and>
     conversation s' = conversation u \<and>
     ui s' =
       ui u @ [LoadingShown,
               AlertShown (''Agent error: '' @ message e) ''danger'',
               MessageAdded ''system'' (''Error: '' @ message e)] \<and>
     \<not> isProcessing s'"
  using agentLoop_iterations [OF assms(1)] agentLoop_first_call_error [OF assms(2)]
  by simp

theorem agentLoop_model_error_witness:
  "iterations (example_runtime\<lparr>fetch := tool_then_error\<rparr>) (Suc 0) example_session =
     Some (the (iterations (example_runtime\<lparr>fetch := tool_then_error\<rparr>) (Suc 0)
                  example_session)) \<and>
   fst (callLLM (example_runtime\<lparr>fetch := tool_then_error\<rparr>)
          (the (iterations (example_runtime\<lparr>fetch := tool_then_error\<rparr>) (Suc 0)
                  example_session))) =
     Inl (Error ''LLM API error: 500 Internal Server Error'') \<and>
   (\<exists>s'. agentLoop (example_runtime\<lparr>fetch := tool_then_error\<rparr>) example_session = Some s' \<and>
      map (\<lambda>t. (role t, content t, tool_call_id t)) (conversation s') =
        [(Assistant, None, None),
         (Tool, Some ''Code executed successfully (no output)'', Some ''call_c'')] \<and>
      \<not> isProcessing s')"
proof -
  have i: "iterations (example_runtime\<lparr>fetch := tool_then_error\<rparr>) (Suc 0) example_session =
     Some (the (iterations (example_runtime\<lparr>fetch := tool_then_error\<rparr>) (Suc 0)
                  example_session))"
    by (simp add: iteration_def callLLM_def showLoadingIndicator_def hideLoadingIndicator_def
        push_def Let_def show_content_def handleToolCall_def showToolCall_def tool_switch_def
        executeJS_def assign_console_log_def property_def captured_def format_output_def
        text_value_def showToolResult_def result_content_def record_result_def
        example_runtime_def tool_then_error_def call_c_def example_parse_def
        clear_flag_arguments_def example_eval_def example_session_def)
  have c: "fst (callLLM (example_runtime\<lparr>fetch := tool_then_error\<rparr>)
          (the (iterations (example_runtime\<lparr>fetch := tool_then_error\<rparr>) (Suc 0)
                  example_session))) =
     Inl (Error ''LLM API error: 500 Internal Server Error'')"
    by (simp add: iteration_def callLLM_def showLoadingIndicator_def hideLoadingIndicator_def
        push_def Let_def show_content_def handleToolCall_def showToolCall_def tool_switch_def
        executeJS_def assign_console_log_def property_def captured_def format_output_def
        text_value_def showToolResult_def result_content_def record_result_def
        example_runtime_def tool_then_error_def server_error_def call_c_def example_parse_def
        clear_flag_arguments_def example_eval_def example_session_def)
  have t: "map (\<lambda>t. (role t, content t, tool_call_id t))
       (conversation (the (iterations (example_runtime\<lparr>fetch := tool_then_error\<rparr>) (Suc 0)
                  example_session))) =
        [(Assistant, None, None),
         (Tool, Some ''Code executed successfully (no output)'', Some ''call_c'')]"
    by (simp add: iteration_def callLLM_def showLoadingIndicator_def hideLoadingIndicator_def
        push_def Let_def show_content_def handleToolCall_def showToolCall_def tool_switch_def
        executeJS_def assign_console_log_def property_def captured_def format_output_def
        text_value_def showToolResult_def result_content_def record_result_def
        example_runtime_def tool_then_error_def call_c_def example_parse_def
        clear_flag_arguments_def example_eval_def example_session_def)
  from agentLoop_model_error [OF i c] obtain s' where
    "agentLoop (example_runtime\<lparr>fetch := tool_then_error\<rparr>) example_session = Some s'"
    and "conversation s' =
       conversation (the (iterations (example_runtime\<lparr>fetch := tool_then_error\<rparr>) (Suc 0)
                  example_session))"
    and "\<not> isProcessing s'"
    by blast
  with i c t show ?thesis by auto
qed

section \<open>The evaluate handler\<close>





section \<open>The payload of the evaluate handler\<close>

text \<open>
  C7, as stated, fails. The code \<open>void Object.freeze(console)\<close> logs nothing and has
  no value, and the handler does not return the fixed text: the assignment of line 390
  raises, and so does the one of line 403. The code
  \<open>console.log(1, 2); void (consoleOutput = String())\<close> has its output captured and
  then empties the local variable that holds it, so the handler returns the fixed
  text and not the captured output.
\<close>

theorem executeJS_payload_refuted:
  "log_calls (js_eval example_runtime (JStr ''void Object.freeze(console)'')
               (installed example_session)) = [] \<and>
   outcome (js_eval example_runtime (JStr ''void Object.freeze(console)'')
              (installed example_session)) = Returned Undefined \<and>
   fst (executeJS example_runtime (JObj [(''code'', JStr ''void Object.freeze(console)'')])
          example_session) =
     Inl (TypeError ''Cannot assign to read only property log of object'') \<and>
   captured (log_calls (js_eval example_runtime
       (JStr ''console.log(1, 2); void (consoleOutput = String())'')
       (installed example_session))) = ''1 2\<newline>'' \<and>
   fst (executeJS example_runtime
          (JObj [(''code'', JStr ''console.log(1, 2); void (consoleOutput = String())'')])
          example_session) =
     Inr (JStr ''Code executed successfully (no output)'')"
  by (simp add: executeJS_def property_def assign_console_log_def Let_def captured_def
      format_output_def text_value_def example_runtime_def example_eval_def
      example_session_def installed_def)

text \<open>
  C7, amended. For every code payload whose evaluation returns, leaves \<open>console.log\<close>
  assignable and does not assign the local \<open>consoleOutput\<close>, and whose result is
  \<open>undefined\<close> or converts to text: with an \<open>undefined\<close> result the handler returns the
  fixed text \<open>Code executed successfully (no output)\<close> when nothing was captured, and
  \<open>Console Output:\<close> with the captured text otherwise; with another result it returns
  \<open>Return Value:\<close> with the text of the result, after \<open>Console Output:\<close>, the captured
  text and an empty line when something was captured.
\<close>

theorem executeJS_payload:
  assumes "destructure ''code'' args = Inr code"
    and "console_log_writable s"
    and "outcome (js_eval rt code (installed s)) = Returned result"
    and "consoleOutput_written (js_eval rt code (installed s)) = None"
    and "console_log_writable (evaluated rt code s)"
    and "result = Undefined \<or> result = ObjectValue (Inr t) \<or> result = OtherValue (Inr t)"
  shows "fst (executeJS rt args s) =
     Inr (JStr
       (let consoleOutput = captured (log_calls (js_eval rt code (installed s))) in
        if consoleOutput = '''' then
          (if result = Undefined then ''Code executed successfully (no output)''
           else ''Return Value:\<newline>'' @ t)
        else
          ''Console Output:\<newline>'' @ consoleOutput @
          (if result = Undefined then ''''
           else ''\<newline>\<newline>'' @ ''Return Value:\<newline>'' @ t)))"
proof -
  have i: "s\<lparr>console_log := CaptureHook (console_log s)\<rparr> = installed s"
    by (simp add: installed_def)
  have w: "console_log_writable (agent_effect (js_eval rt code (installed s)) (installed s))"
    using assms(5) by (simp add: evaluated_def)
  show ?thesis
    using assms(1-4,6) w
    by (auto simp: executeJS_def assign_console_log_def Let_def i format_output_def
        text_value_def)
qed

theorem executeJS_payload_witness:
  "destructure ''code'' (JObj [(''code'', JStr ''console.log(1, 2)'')]) =
     Inr (JStr ''console.log(1, 2)'') \<and>
   console_log_writable example_session \<and>
   outcome (js_eval example_runtime (JStr ''console.log(1, 2)'') (installed example_session)) =
     Returned Undefined \<and>
   consoleOutput_written
     (js_eval example_runtime (JStr ''console.log(1, 2)'') (installed example_session)) = None \<and>
   console_log_writable (evaluated example_runtime (JStr ''console.log(1, 2)'') example_session) \<and>
   fst (executeJS example_runtime (JObj [(''code'', JStr ''console.log(1, 2)'')]) example_session) =
     Inr (JStr ''Console Output:\<newline>1 2\<newline>'')"
proof -
  have a: "destructure ''code'' (JObj [(''code'', JStr ''console.log(1, 2)'')]) =
     Inr (JStr ''console.log(1, 2)'')"
    by (simp add: property_def)
  have b: "console_log_writable example_session"
    by (simp add: example_session_def)
  have c: "outcome (js_eval example_runtime (JStr ''console.log(1, 2)'')
       (installed example_session)) = Returned Undefined"
    by (simp add: example_runtime_def example_eval_def)
  have d: "consoleOutput_written
     (js_eval example_runtime (JStr ''console.log(1, 2)'') (installed example_session)) = None"
    by (simp add: example_runtime_def example_eval_def)
  have e: "console_log_writable
     (evaluated example_runtime (JStr ''console.log(1, 2)'') example_session)"
    by (simp add: evaluated_def installed_def example_runtime_def example_eval_def
        example_session_def)
  have f: "Undefined = Undefined \<or> Undefined = ObjectValue (Inr '''') \<or>
     Undefined = OtherValue (Inr '''')"
    by simp
  show ?thesis
    using a b c d e executeJS_payload [OF a b c d e f]
    by (simp add: example_runtime_def example_eval_def captured_def)
qed

text \<open>
  A result that has no text form: the code \<open>Symbol()\<close> evaluates to a symbol, and its
  conversion on line 397 raises, which the \<open>catch\<close> of line 402 turns into a
  \<open>JavaScript execution error\<close>.
\<close>

lemma executeJS_symbol_result:
  "fst (executeJS example_runtime (JObj [(''code'', JStr ''Symbol()'')]) example_session) =
     Inl (Error ''JavaScript execution error: Cannot convert a Symbol value to a string'')"
  by (simp add: executeJS_def property_def assign_console_log_def example_runtime_def
      example_eval_def Let_def captured_def format_output_def text_value_def
      example_session_def)

section \<open>The payload of a tool turn\<close>







section \<open>The busy flag\<close>

















end
